theory Spec2Isabelle
  imports Complex_Main
begin

section \<open>Compile-time rationals: \<^verbatim>\<open>std::ratio\<close>\<close>

text \<open>
  The header \<^verbatim>\<open>include/units.h\<close> computes every unit at compile time, on types.
  A type \<^verbatim>\<open>std::ratio<N, D>\<close> is modelled by the term \<open>Ratio N D\<close>, and
  \<^verbatim>\<open>std::is_same\<close> on two such types by equality of the terms: \<^verbatim>\<open>std::ratio<2, 4>\<close>
  and \<^verbatim>\<open>std::ratio<1, 2>\<close> are different types denoting the same rational.
  The members \<^verbatim>\<open>num\<close> and \<^verbatim>\<open>den\<close> are the reduced numerator and denominator,
  \<open>sign(N) * sign(D) * abs(N) / gcd\<close> and \<open>abs(D) / gcd\<close>. The integers are those of
  \<^verbatim>\<open>intmax_t\<close>; a ratio that cannot be represented does not compile, so the range is
  not part of the model and \<open>int\<close> stands for the values of a program that compiled.
\<close>

datatype ratio = Ratio int int

fun num :: "ratio \<Rightarrow> int" where
  "num (Ratio N D) = sgn N * sgn D * (abs N div gcd N D)"

fun den :: "ratio \<Rightarrow> int" where
  "den (Ratio N D) = abs D div gcd N D"

text \<open>\<^verbatim>\<open>std::ratio<N, 0>\<close> is ill-formed.\<close>

fun ratio_ok :: "ratio \<Rightarrow> bool" where
  "ratio_ok (Ratio N D) = (D \<noteq> 0)"

text \<open>The member \<^verbatim>\<open>type\<close>: \<^verbatim>\<open>std::ratio<num, den>\<close>.\<close>

definition ratio_type :: "ratio \<Rightarrow> ratio" where
  "ratio_type R = Ratio (num R) (den R)"

text \<open>
  The arithmetic aliases of \<^verbatim>\<open><ratio>\<close> name the reduced type of the result.
  \<^verbatim>\<open>std::ratio_divide\<close> by a ratio whose numerator is zero is ill-formed (the
  result would have denominator zero): \<open>None\<close>.
\<close>

definition ratio_add :: "ratio \<Rightarrow> ratio \<Rightarrow> ratio" where
  "ratio_add R1 R2 = ratio_type (Ratio (num R1 * den R2 + num R2 * den R1) (den R1 * den R2))"

definition ratio_subtract :: "ratio \<Rightarrow> ratio \<Rightarrow> ratio" where
  "ratio_subtract R1 R2 = ratio_type (Ratio (num R1 * den R2 - num R2 * den R1) (den R1 * den R2))"

definition ratio_multiply :: "ratio \<Rightarrow> ratio \<Rightarrow> ratio" where
  "ratio_multiply R1 R2 = ratio_type (Ratio (num R1 * num R2) (den R1 * den R2))"

definition ratio_divide :: "ratio \<Rightarrow> ratio \<Rightarrow> ratio option" where
  "ratio_divide R1 R2 =
     (if num R2 = 0 then None
      else Some (ratio_type (Ratio (num R1 * den R2) (den R1 * num R2))))"

text \<open>The rational number a ratio type denotes.\<close>

fun rat_of_ratio :: "ratio \<Rightarrow> rat" where
  "rat_of_ratio (Ratio N D) = Fract N D"

section \<open>Base units and units\<close>

text \<open>
  \<^verbatim>\<open>base_unit<Meter, Kilogram, Second, Radian, Ampere, Kelvin, Mole, Candela>\<close>: the
  exponents of the eight base dimensions, each defaulting to \<^verbatim>\<open>std::ratio<0>\<close>. The
  manipulators work on the parameter pack \<^verbatim>\<open>Exponents...\<close>, which is the list here.
\<close>

datatype base_unit = base_unit (Exponents: "ratio list")

fun base_unit_ok :: "base_unit \<Rightarrow> bool" where
  "base_unit_ok (base_unit es) = (length es = 8 \<and> list_all ratio_ok es)"

text \<open>
  \<^verbatim>\<open>unit<Conversion, BaseUnit, PiExponent, Translation>\<close>. The partial specialisation
  for a \<^verbatim>\<open>BaseUnit\<close> that is a \<^verbatim>\<open>base_unit<Exponents...>\<close> is \<open>UnitOfBase\<close>; the
  primary template, whose \<^verbatim>\<open>BaseUnit\<close> is a unit again, is \<open>Unit\<close>.
\<close>

datatype unit_tag =
    UnitOfBase ratio base_unit ratio ratio
  | Unit ratio unit_tag ratio ratio

fun unit_ok :: "unit_tag \<Rightarrow> bool" where
  "unit_ok (UnitOfBase Conversion B PiExponent Translation) =
     (ratio_ok Conversion \<and> base_unit_ok B \<and> ratio_ok PiExponent \<and> ratio_ok Translation)"
| "unit_ok (Unit Conversion U PiExponent Translation) =
     (ratio_ok Conversion \<and> unit_ok U \<and> ratio_ok PiExponent \<and> ratio_ok Translation)"

fun base_unit_type :: "unit_tag \<Rightarrow> base_unit" where
  "base_unit_type (UnitOfBase Conversion B PiExponent Translation) = B"
| "base_unit_type (Unit Conversion U PiExponent Translation) = base_unit_type U"

fun conversion_ratio :: "unit_tag \<Rightarrow> ratio" where
  "conversion_ratio (UnitOfBase Conversion B PiExponent Translation) = Conversion"
| "conversion_ratio (Unit Conversion U PiExponent Translation) =
     ratio_multiply (conversion_ratio U) Conversion"

fun pi_exponent_ratio :: "unit_tag \<Rightarrow> ratio" where
  "pi_exponent_ratio (UnitOfBase Conversion B PiExponent Translation) = PiExponent"
| "pi_exponent_ratio (Unit Conversion U PiExponent Translation) =
     ratio_add (pi_exponent_ratio U) PiExponent"

fun translation_ratio :: "unit_tag \<Rightarrow> ratio" where
  "translation_ratio (UnitOfBase Conversion B PiExponent Translation) = Translation"
| "translation_ratio (Unit Conversion U PiExponent Translation) =
     ratio_add (ratio_multiply (conversion_ratio U) Translation) (translation_ratio U)"

text \<open>
  \<^verbatim>\<open>base_unit_of\<close> walks from a unit down to the \<^verbatim>\<open>base_unit\<close> it is built on and
  leaves a \<^verbatim>\<open>base_unit\<close> as it is. The header applies it to a
  \<^verbatim>\<open>base_unit_type\<close> (\<open>base_unit_of\<close>) and to a unit (\<open>base_unit_of_unit\<close>).
\<close>

definition base_unit_of :: "base_unit \<Rightarrow> base_unit" where
  "base_unit_of B = B"

fun base_unit_of_unit :: "unit_tag \<Rightarrow> base_unit" where
  "base_unit_of_unit (UnitOfBase Conversion B PiExponent Translation) = base_unit_of B"
| "base_unit_of_unit (Unit Conversion U PiExponent Translation) = base_unit_of_unit U"

section \<open>Manipulators\<close>

text \<open>
  The pack expansion \<^verbatim>\<open>std::ratio_add<Exponents1, Exponents2>...\<close> pairs the two
  packs position by position.
\<close>

fun base_unit_multiply :: "base_unit \<Rightarrow> base_unit \<Rightarrow> base_unit" where
  "base_unit_multiply (base_unit Exponents1) (base_unit Exponents2) =
     base_unit (map2 ratio_add Exponents1 Exponents2)"

fun squared_base :: "base_unit \<Rightarrow> base_unit" where
  "squared_base (base_unit es) = base_unit (map (\<lambda>e. ratio_multiply e (Ratio 2 1)) es)"

definition unit_multiply :: "unit_tag \<Rightarrow> unit_tag \<Rightarrow> unit_tag" where
  "unit_multiply Unit1 Unit2 =
     UnitOfBase (ratio_multiply (conversion_ratio Unit1) (conversion_ratio Unit2))
       (base_unit_multiply (base_unit_of (base_unit_type Unit1)) (base_unit_of (base_unit_type Unit2)))
       (ratio_add (pi_exponent_ratio Unit1) (pi_exponent_ratio Unit2))
       (Ratio 0 1)"

definition squared :: "unit_tag \<Rightarrow> unit_tag" where
  "squared U =
     (let Conversion = conversion_ratio U in
      UnitOfBase (ratio_multiply Conversion Conversion)
        (squared_base (base_unit_of (base_unit_type U)))
        (ratio_multiply (pi_exponent_ratio U) (Ratio 2 1))
        (Ratio 0 1))"

text \<open>\<^verbatim>\<open>compound_unit<U, Us...>\<close> folds \<^verbatim>\<open>unit_multiply\<close> from the left.\<close>

fun compound_unit :: "unit_tag \<Rightarrow> unit_tag list \<Rightarrow> unit_tag" where
  "compound_unit U [] = U"
| "compound_unit U1 (U2 # Us) = compound_unit (unit_multiply U1 U2) Us"

text \<open>\<^verbatim>\<open>prefix<Ratio, Unit>::type\<close>, with \<^verbatim>\<open>std::kilo\<close> = \<^verbatim>\<open>std::ratio<1000, 1>\<close>.\<close>

definition prefix :: "ratio \<Rightarrow> unit_tag \<Rightarrow> unit_tag" where
  "prefix R U = Unit R U (Ratio 0 1) (Ratio 0 1)"

definition kilo :: "unit_tag \<Rightarrow> unit_tag" where
  "kilo U = prefix (Ratio 1000 1) U"

section \<open>The conversion function\<close>

text \<open>
  What the compiler rejects is an error value: a failed \<^verbatim>\<open>static_assert\<close>, an
  ill-formed \<^verbatim>\<open>std::ratio_divide\<close>, a call no overload accepts, a missing
  conversion to the return type.
\<close>

datatype compile_error =
    Units_are_not_compatible
  | Ratio_division_by_zero
  | Different_scales
  | No_matching_operator
  | No_conversion_to_arithmetic

definition is_convertible_unit :: "unit_tag \<Rightarrow> unit_tag \<Rightarrow> bool" where
  "is_convertible_unit U1 U2 \<longleftrightarrow>
     base_unit_of (base_unit_type U1) = base_unit_of (base_unit_type U2)"

text \<open>
  \<^verbatim>\<open>constants::PI\<close>, the decimal literal of the header. Values of the underlying
  type \<^verbatim>\<open>T\<close> (\<^verbatim>\<open>double\<close> by default) are modelled as real numbers: rounding is not
  part of the model.
\<close>

definition PI :: real where
  "PI = 3.14159265358979323846264338327950288419716939937510"

text \<open>
  The aliases \<^verbatim>\<open>Ratio\<close>, \<^verbatim>\<open>PiRatio\<close> and \<^verbatim>\<open>Translation\<close> that the bodies of
  \<^verbatim>\<open>_convert\<close> declare.
\<close>

definition Ratio_of :: "unit_tag \<Rightarrow> unit_tag \<Rightarrow> ratio option" where
  "Ratio_of UnitFrom UnitTo = ratio_divide (conversion_ratio UnitFrom) (conversion_ratio UnitTo)"

definition PiRatio_of :: "unit_tag \<Rightarrow> unit_tag \<Rightarrow> ratio" where
  "PiRatio_of UnitFrom UnitTo = ratio_subtract (pi_exponent_ratio UnitFrom) (pi_exponent_ratio UnitTo)"

definition Translation_of :: "unit_tag \<Rightarrow> unit_tag \<Rightarrow> ratio option" where
  "Translation_of UnitFrom UnitTo =
     ratio_divide (ratio_subtract (translation_ratio UnitFrom) (translation_ratio UnitTo))
       (conversion_ratio UnitTo)"

text \<open>
  The overloads of \<^verbatim>\<open>_convert\<close>, selected by the three tags \<^verbatim>\<open>isSame\<close>,
  \<^verbatim>\<open>piRequired\<close> and \<^verbatim>\<open>translationRequired\<close>, in the order of the header.
\<close>

fun convert_dispatch ::
  "unit_tag \<Rightarrow> unit_tag \<Rightarrow> real \<Rightarrow> bool \<Rightarrow> bool \<Rightarrow> bool \<Rightarrow> compile_error + real" where
  "convert_dispatch UnitFrom UnitTo v True False False = Inr v"
| "convert_dispatch UnitFrom UnitTo v True False True = Inr v"
| "convert_dispatch UnitFrom UnitTo v True True False = Inr v"
| "convert_dispatch UnitFrom UnitTo v True True True = Inr v"
| "convert_dispatch UnitFrom UnitTo v False False False =
     (case Ratio_of UnitFrom UnitTo of
        None \<Rightarrow> Inl Ratio_division_by_zero
      | Some R \<Rightarrow> Inr (real_of_int (num R) * v / real_of_int (den R)))"
| "convert_dispatch UnitFrom UnitTo v False True False =
     (case Ratio_of UnitFrom UnitTo of
        None \<Rightarrow> Inl Ratio_division_by_zero
      | Some R \<Rightarrow>
          (let P = PiRatio_of UnitFrom UnitTo in
           Inr ((real_of_int (num R) * v / real_of_int (den R))
                * (PI powr (real_of_int (num P) / real_of_int (den P))))))"
| "convert_dispatch UnitFrom UnitTo v False False True =
     (case Ratio_of UnitFrom UnitTo of
        None \<Rightarrow> Inl Ratio_division_by_zero
      | Some R \<Rightarrow>
          (case Translation_of UnitFrom UnitTo of
             None \<Rightarrow> Inl Ratio_division_by_zero
           | Some Tr \<Rightarrow>
               Inr ((real_of_int (num R) * v / real_of_int (den R))
                    + (real_of_int (num Tr) / real_of_int (den Tr)))))"
| "convert_dispatch UnitFrom UnitTo v False True True =
     (case Ratio_of UnitFrom UnitTo of
        None \<Rightarrow> Inl Ratio_division_by_zero
      | Some R \<Rightarrow>
          (case Translation_of UnitFrom UnitTo of
             None \<Rightarrow> Inl Ratio_division_by_zero
           | Some Tr \<Rightarrow>
               (let P = PiRatio_of UnitFrom UnitTo in
                Inr ((real_of_int (num R) * v / real_of_int (den R))
                     * (PI powr (real_of_int (num P) / real_of_int (den P)))
                     + (real_of_int (num Tr) / real_of_int (den Tr))))))"

text \<open>
  \<^verbatim>\<open>convert<UnitFrom, UnitTo, T>(value)\<close>: the assertion that the units are
  compatible, the three tags, and the dispatch.
\<close>

definition isSame :: "unit_tag \<Rightarrow> unit_tag \<Rightarrow> bool" where
  "isSame UnitFrom UnitTo \<longleftrightarrow> UnitFrom = UnitTo"

definition piRequired :: "unit_tag \<Rightarrow> unit_tag \<Rightarrow> bool" where
  "piRequired UnitFrom UnitTo \<longleftrightarrow>
     \<not> (Ratio 0 1 = pi_exponent_ratio UnitFrom \<and> Ratio 0 1 = pi_exponent_ratio UnitTo)"

definition translationRequired :: "unit_tag \<Rightarrow> unit_tag \<Rightarrow> bool" where
  "translationRequired UnitFrom UnitTo \<longleftrightarrow>
     \<not> (Ratio 0 1 = translation_ratio UnitFrom \<and> Ratio 0 1 = translation_ratio UnitTo)"

definition convert :: "unit_tag \<Rightarrow> unit_tag \<Rightarrow> real \<Rightarrow> compile_error + real" where
  "convert UnitFrom UnitTo v =
     (if \<not> is_convertible_unit UnitFrom UnitTo then Inl Units_are_not_compatible
      else convert_dispatch UnitFrom UnitTo v
             (isSame UnitFrom UnitTo) (piRequired UnitFrom UnitTo)
             (translationRequired UnitFrom UnitTo))"

section \<open>The units of the header that the examples use\<close>

definition scalar_unit :: base_unit where
  "scalar_unit = base_unit (replicate 8 (Ratio 0 1))"

definition length_unit :: base_unit where
  "length_unit = base_unit (Ratio 1 1 # replicate 7 (Ratio 0 1))"

definition time_unit :: base_unit where
  "time_unit = base_unit ([Ratio 0 1, Ratio 0 1, Ratio 1 1] @ replicate 5 (Ratio 0 1))"

definition temperature_unit :: base_unit where
  "temperature_unit = base_unit (replicate 5 (Ratio 0 1) @ [Ratio 1 1, Ratio 0 1, Ratio 0 1])"

definition scalar :: unit_tag where
  "scalar = UnitOfBase (Ratio 1 1) scalar_unit (Ratio 0 1) (Ratio 0 1)"

definition meters :: unit_tag where
  "meters = UnitOfBase (Ratio 1 1) length_unit (Ratio 0 1) (Ratio 0 1)"

definition kilometers :: unit_tag where
  "kilometers = kilo meters"

definition feet :: unit_tag where
  "feet = Unit (Ratio 381 1250) meters (Ratio 0 1) (Ratio 0 1)"

definition seconds :: unit_tag where
  "seconds = UnitOfBase (Ratio 1 1) time_unit (Ratio 0 1) (Ratio 0 1)"

definition minutes :: unit_tag where
  "minutes = Unit (Ratio 60 1) seconds (Ratio 0 1) (Ratio 0 1)"

definition hours :: unit_tag where
  "hours = Unit (Ratio 60 1) minutes (Ratio 0 1) (Ratio 0 1)"

definition days :: unit_tag where
  "days = Unit (Ratio 24 1) hours (Ratio 0 1) (Ratio 0 1)"

definition weeks :: unit_tag where
  "weeks = Unit (Ratio 7 1) days (Ratio 0 1) (Ratio 0 1)"

definition years :: unit_tag where
  "years = Unit (Ratio 365 1) days (Ratio 0 1) (Ratio 0 1)"

definition kelvin :: unit_tag where
  "kelvin = UnitOfBase (Ratio 1 1) temperature_unit (Ratio 0 1) (Ratio 0 1)"

definition celsius :: unit_tag where
  "celsius = Unit (Ratio 1 1) kelvin (Ratio 0 1) (Ratio 27315 100)"

definition fahrenheit :: unit_tag where
  "fahrenheit = Unit (Ratio 5 9) celsius (Ratio 0 1) (Ratio (-160) 9)"

section \<open>Scales\<close>

text \<open>
  \<^verbatim>\<open>linear_scale<T>\<close> and \<^verbatim>\<open>decibel_scale<T>\<close>: the constructor from a value, the
  default constructor and \<^verbatim>\<open>operator()\<close>, each acting on the member \<^verbatim>\<open>m_value\<close>.
  \<^verbatim>\<open>std::pow(10, value / 10)\<close> is \<open>10 powr (value / 10)\<close>. \<^verbatim>\<open>std::log10\<close> of a
  magnitude that is not positive is not a finite number: \<open>None\<close>.
\<close>

datatype scale = linear_scale | decibel_scale

fun nls_ctor :: "scale \<Rightarrow> real \<Rightarrow> real" where
  "nls_ctor linear_scale v = v"
| "nls_ctor decibel_scale v = 10 powr (v / 10)"

fun nls_default_ctor :: "scale \<Rightarrow> real" where
  "nls_default_ctor linear_scale = 0"
| "nls_default_ctor decibel_scale = 1"

fun nls_call :: "scale \<Rightarrow> real \<Rightarrow> real option" where
  "nls_call linear_scale m = Some m"
| "nls_call decibel_scale m = (if 0 < m then Some (10 * log 10 m) else None)"

section \<open>The container \<^verbatim>\<open>unit_t\<close>\<close>

text \<open>
  \<^verbatim>\<open>unit_t<Units, T, NonLinearScale>\<close> derives from \<^verbatim>\<open>NonLinearScale<T>\<close> and so
  holds its \<^verbatim>\<open>m_value\<close>. The two type parameters that the operators inspect are
  fields of the record.
\<close>

record unit_t =
  unit_type :: unit_tag
  non_linear_scale_type :: scale
  m_value :: real

text \<open>\<^verbatim>\<open>unit_t() : NonLinearScale<T>(0)\<close>.\<close>

definition unit_t_default :: "unit_tag \<Rightarrow> scale \<Rightarrow> unit_t" where
  "unit_t_default Units S =
     \<lparr>unit_type = Units, non_linear_scale_type = S, m_value = nls_ctor S 0\<rparr>"

text \<open>\<^verbatim>\<open>explicit unit_t(const Args&... args) : nls(args...)\<close>, on one value.\<close>

definition unit_t_ctor :: "unit_tag \<Rightarrow> scale \<Rightarrow> real \<Rightarrow> unit_t" where
  "unit_t_ctor Units S v =
     \<lparr>unit_type = Units, non_linear_scale_type = S, m_value = nls_ctor S v\<rparr>"

text \<open>\<^verbatim>\<open>operator()\<close>, inherited from the scale.\<close>

definition call :: "unit_t \<Rightarrow> real option" where
  "call x = nls_call (non_linear_scale_type x) (m_value x)"

definition is_convertible_unit_t :: "unit_t \<Rightarrow> unit_t \<Rightarrow> bool" where
  "is_convertible_unit_t U1 U2 \<longleftrightarrow> is_convertible_unit (unit_type U1) (unit_type U2)"

definition is_scalar_unit :: "unit_t list \<Rightarrow> bool" where
  "is_scalar_unit Ts \<longleftrightarrow> list_all (\<lambda>x. base_unit_of_unit (unit_type x) = scalar_unit) Ts"

definition has_linear_scale :: "unit_t list \<Rightarrow> bool" where
  "has_linear_scale Ts \<longleftrightarrow> list_all (\<lambda>x. non_linear_scale_type x = linear_scale) Ts"

definition has_decibel_scale :: "unit_t list \<Rightarrow> bool" where
  "has_decibel_scale Ts \<longleftrightarrow> list_all (\<lambda>x. non_linear_scale_type x = decibel_scale) Ts"

definition is_same_scale :: "unit_t \<Rightarrow> unit_t \<Rightarrow> bool" where
  "is_same_scale T1 T2 \<longleftrightarrow> non_linear_scale_type T1 = non_linear_scale_type T2"

text \<open>
  The conversion operator template \<^verbatim>\<open>operator Ty()\<close> exists for scalar units only;
  it converts to \<^verbatim>\<open>unit<std::ratio<1>, category::scalar_unit>\<close>. A value of an
  arithmetic type becomes the \<^verbatim>\<open>bool\<close> \<open>true\<close> when it is not zero.
\<close>

definition to_arithmetic :: "unit_t \<Rightarrow> compile_error + real" where
  "to_arithmetic x =
     (if base_unit_of_unit (unit_type x) = scalar_unit
      then convert (unit_type x) (UnitOfBase (Ratio 1 1) scalar_unit (Ratio 0 1) (Ratio 0 1))
             (m_value x)
      else Inl No_conversion_to_arithmetic)"

definition to_bool :: "real \<Rightarrow> bool" where
  "to_bool v \<longleftrightarrow> v \<noteq> 0"

subsection \<open>Comparison operators\<close>

text \<open>
  The member templates of \<^verbatim>\<open>unit_t\<close>; \<open>lhs\<close> is \<^verbatim>\<open>*this\<close>. \<^verbatim>\<open>operator<\<close> returns
  \<^verbatim>\<open>unit_t(nls::m_value < convert<UnitsRhs, Units>(rhs.m_value))\<close>: the result of the
  comparison is wrapped in a \<^verbatim>\<open>unit_t\<close> of the left type, which the \<^verbatim>\<open>bool\<close> return
  type then converts back. The other five return the comparison itself.
\<close>

definition operator_less :: "unit_t \<Rightarrow> unit_t \<Rightarrow> compile_error + bool" where
  "operator_less lhs rhs =
     (case convert (unit_type rhs) (unit_type lhs) (m_value rhs) of
        Inl e \<Rightarrow> Inl e
      | Inr v \<Rightarrow>
          (case to_arithmetic
                  (unit_t_ctor (unit_type lhs) (non_linear_scale_type lhs)
                     (of_bool (m_value lhs < v))) of
             Inl e \<Rightarrow> Inl e
           | Inr r \<Rightarrow> Inr (to_bool r)))"

definition operator_less_eq :: "unit_t \<Rightarrow> unit_t \<Rightarrow> compile_error + bool" where
  "operator_less_eq lhs rhs =
     (case convert (unit_type rhs) (unit_type lhs) (m_value rhs) of
        Inl e \<Rightarrow> Inl e
      | Inr v \<Rightarrow> Inr (m_value lhs \<le> v))"

definition operator_greater :: "unit_t \<Rightarrow> unit_t \<Rightarrow> compile_error + bool" where
  "operator_greater lhs rhs =
     (case convert (unit_type rhs) (unit_type lhs) (m_value rhs) of
        Inl e \<Rightarrow> Inl e
      | Inr v \<Rightarrow> Inr (m_value lhs > v))"

definition operator_greater_eq :: "unit_t \<Rightarrow> unit_t \<Rightarrow> compile_error + bool" where
  "operator_greater_eq lhs rhs =
     (case convert (unit_type rhs) (unit_type lhs) (m_value rhs) of
        Inl e \<Rightarrow> Inl e
      | Inr v \<Rightarrow> Inr (m_value lhs \<ge> v))"

definition operator_eq :: "unit_t \<Rightarrow> unit_t \<Rightarrow> compile_error + bool" where
  "operator_eq lhs rhs =
     (case convert (unit_type rhs) (unit_type lhs) (m_value rhs) of
        Inl e \<Rightarrow> Inl e
      | Inr v \<Rightarrow> Inr (m_value lhs = v))"

definition operator_not_eq :: "unit_t \<Rightarrow> unit_t \<Rightarrow> compile_error + bool" where
  "operator_not_eq lhs rhs =
     (case convert (unit_type rhs) (unit_type lhs) (m_value rhs) of
        Inl e \<Rightarrow> Inl e
      | Inr v \<Rightarrow> Inr (m_value lhs \<noteq> v))"

subsection \<open>Multiplication of two containers\<close>

text \<open>
  Two overloads of \<^verbatim>\<open>operator*\<close> take two containers. Both need linear scales; the
  first is enabled when the units are convertible, the second when they are not. The
  overloads for a container and an arithmetic value do not accept a container in the
  place of the value, so two containers that are not both linear find no operator.
\<close>

definition operator_times :: "unit_t \<Rightarrow> unit_t \<Rightarrow> compile_error + unit_t" where
  "operator_times lhs rhs =
     (if is_convertible_unit_t lhs rhs \<and> has_linear_scale [lhs, rhs] then
        (case convert (unit_type rhs) (unit_type lhs) (m_value rhs) of
           Inl e \<Rightarrow> Inl e
         | Inr v \<Rightarrow>
             Inr (unit_t_ctor (compound_unit (squared (unit_type lhs)) []) linear_scale
                    (m_value lhs * v)))
      else if \<not> is_convertible_unit_t lhs rhs \<and> has_linear_scale [lhs, rhs] then
        Inr (unit_t_ctor (compound_unit (unit_type lhs) [unit_type rhs]) linear_scale
               (m_value lhs * m_value rhs))
      else Inl No_matching_operator)"

subsection \<open>Addition of two containers\<close>

text \<open>
  \<^verbatim>\<open>dimensionless::dB_t\<close> is \<^verbatim>\<open>unit_t<scalar, double, decibel_scale>\<close>.
\<close>

definition is_dB_t :: "unit_t \<Rightarrow> bool" where
  "is_dB_t x \<longleftrightarrow> unit_type x = scalar \<and> non_linear_scale_type x = decibel_scale"

text \<open>
  The overloads of \<^verbatim>\<open>operator+\<close> that accept two containers: the one for different
  scales, whose body is a failing \<^verbatim>\<open>static_assert\<close>; the linear one; and three for
  decibel scales. Of the decibel overloads, the two that name \<^verbatim>\<open>dB_t\<close> as one
  parameter are more specialised than the general one and win where they are enabled,
  so they are tested first.
\<close>

definition operator_plus :: "unit_t \<Rightarrow> unit_t \<Rightarrow> compile_error + unit_t" where
  "operator_plus lhs rhs =
     (if \<not> is_same_scale lhs rhs then Inl Different_scales
      else if has_linear_scale [lhs, rhs] then
        (case convert (unit_type rhs) (unit_type lhs) (m_value rhs) of
           Inl e \<Rightarrow> Inl e
         | Inr v \<Rightarrow> Inr (unit_t_ctor (unit_type lhs) (non_linear_scale_type lhs) (m_value lhs + v)))
      else if has_decibel_scale [lhs] \<and> \<not> is_scalar_unit [lhs] \<and> is_dB_t rhs then
        Inr ((unit_t_default (unit_type lhs) (non_linear_scale_type lhs))
               \<lparr>m_value := m_value lhs * m_value rhs\<rparr>)
      else if has_decibel_scale [rhs] \<and> \<not> is_scalar_unit [rhs] \<and> is_dB_t lhs then
        Inr ((unit_t_default (unit_type rhs) (non_linear_scale_type rhs))
               \<lparr>m_value := m_value lhs * m_value rhs\<rparr>)
      else if has_decibel_scale [lhs, rhs] then
        (case convert (unit_type rhs) (unit_type lhs) (m_value rhs) of
           Inl e \<Rightarrow> Inl e
         | Inr v \<Rightarrow>
             Inr ((unit_t_default (compound_unit (squared (unit_type lhs)) []) decibel_scale)
                    \<lparr>m_value := m_value lhs * v\<rparr>))
      else Inl No_matching_operator)"

subsection \<open>Containers of the header that the examples use\<close>

definition meter_t :: "real \<Rightarrow> unit_t" where
  "meter_t v = unit_t_ctor meters linear_scale v"

definition kilometer_t :: "real \<Rightarrow> unit_t" where
  "kilometer_t v = unit_t_ctor kilometers linear_scale v"

definition second_t :: "real \<Rightarrow> unit_t" where
  "second_t v = unit_t_ctor seconds linear_scale v"

definition dB_t :: "real \<Rightarrow> unit_t" where
  "dB_t v = unit_t_ctor scalar decibel_scale v"

text \<open>
  The dimension vector of a unit: the rational exponents of its base unit.
\<close>

definition dimension :: "unit_tag \<Rightarrow> rat list" where
  "dimension U = map rat_of_ratio (Exponents (base_unit_of (base_unit_type U)))"

text \<open>
  The exponents of a base unit are in lowest terms when each is its own reduced type, as
  the exponents written in the header and those computed by the manipulators are.
\<close>

definition reduced_exponents :: "unit_tag \<Rightarrow> bool" where
  "reduced_exponents U \<longleftrightarrow> list_all (\<lambda>e. ratio_type e = e) (Exponents (base_unit_type U))"

section \<open>Ratios denote rationals\<close>

lemma den_pos: "ratio_ok R \<Longrightarrow> 0 < den R"
proof (cases R)
  case (Ratio N D)
  assume "ratio_ok R"
  with Ratio have D: "0 < abs D" by simp
  then have g: "0 < gcd N D" by simp
  have "gcd N D dvd abs D" by simp
  then have "gcd N D \<le> abs D" using D by (rule zdvd_imp_le)
  with g have "0 < abs D div gcd N D" by (simp add: pos_imp_zdiv_pos_iff)
  with Ratio show ?thesis by simp
qed

lemma num_times_den: "D \<noteq> 0 \<Longrightarrow> num (Ratio N D) * D = N * den (Ratio N D)"
proof -
  assume D: "D \<noteq> 0"
  define g where "g = gcd N D"
  have a: "(abs N div g) * g = abs N" unfolding g_def by (rule dvd_div_mult_self) simp
  have b: "(abs D div g) * g = abs D" unfolding g_def by (rule dvd_div_mult_self) simp
  have c: "(abs N div g) * abs D = abs N * (abs D div g)"
  proof -
    have "(abs N div g) * abs D = (abs N div g) * ((abs D div g) * g)" by (simp only: b)
    also have "\<dots> = ((abs N div g) * g) * (abs D div g)" by (simp only: mult_ac)
    also have "\<dots> = abs N * (abs D div g)" by (simp only: a)
    finally show ?thesis .
  qed
  have "num (Ratio N D) * D = sgn N * ((abs N div g) * (sgn D * D))"
    by (simp only: num.simps g_def mult_ac)
  also have "sgn D * D = abs D" by (simp only: abs_sgn mult.commute)
  also have "sgn N * ((abs N div g) * abs D) = (sgn N * abs N) * (abs D div g)"
    by (simp only: c mult.assoc)
  also have "sgn N * abs N = N" by (simp only: sgn_mult_abs)
  finally show ?thesis by (simp only: den.simps g_def)
qed

lemma Fract_num_den: "ratio_ok R \<Longrightarrow> Fract (num R) (den R) = rat_of_ratio R"
proof (cases R)
  case (Ratio N D)
  assume ok: "ratio_ok R"
  from den_pos[OF ok] have d: "den R \<noteq> 0" by simp
  from ok Ratio have D: "D \<noteq> 0" by simp
  have "num R * D = N * den R"
    using num_times_den[OF D, of N] by (simp only: Ratio)
  then have "Fract (num R) (den R) = Fract N D"
    by (simp only: eq_rat(1)[OF d D])
  then show ?thesis by (simp only: Ratio rat_of_ratio.simps)
qed

lemma ratio_ok_type: "ratio_ok R \<Longrightarrow> ratio_ok (ratio_type R)"
  using den_pos[of R] by (simp add: ratio_type_def)

lemma rat_of_ratio_type: "ratio_ok R \<Longrightarrow> rat_of_ratio (ratio_type R) = rat_of_ratio R"
  by (simp add: ratio_type_def Fract_num_den)

lemma real_num_den:
  "ratio_ok R \<Longrightarrow> real_of_int (num R) / real_of_int (den R) = of_rat (rat_of_ratio R)"
proof -
  assume ok: "ratio_ok R"
  have "of_rat (Fract (num R) (den R)) = real_of_int (num R) / real_of_int (den R)"
    by (simp only: Fract_of_int_quotient of_rat_divide of_rat_of_int_eq)
  with ok show ?thesis by (simp only: Fract_num_den)
qed

lemma ratio_ok_add: "ratio_ok R1 \<Longrightarrow> ratio_ok R2 \<Longrightarrow> ratio_ok (ratio_add R1 R2)"
  using den_pos[of R1] den_pos[of R2] by (simp add: ratio_add_def ratio_ok_type)

lemma ratio_ok_subtract: "ratio_ok R1 \<Longrightarrow> ratio_ok R2 \<Longrightarrow> ratio_ok (ratio_subtract R1 R2)"
  using den_pos[of R1] den_pos[of R2] by (simp add: ratio_subtract_def ratio_ok_type)

lemma ratio_ok_multiply: "ratio_ok R1 \<Longrightarrow> ratio_ok R2 \<Longrightarrow> ratio_ok (ratio_multiply R1 R2)"
  using den_pos[of R1] den_pos[of R2] by (simp add: ratio_multiply_def ratio_ok_type)

lemma rat_of_ratio_add:
  assumes "ratio_ok R1" "ratio_ok R2"
  shows "rat_of_ratio (ratio_add R1 R2) = rat_of_ratio R1 + rat_of_ratio R2"
proof -
  have d: "den R1 \<noteq> 0" "den R2 \<noteq> 0" using den_pos assms by fastforce+
  have "rat_of_ratio (ratio_add R1 R2) = Fract (num R1 * den R2 + num R2 * den R1) (den R1 * den R2)"
    using d by (simp add: ratio_add_def rat_of_ratio_type)
  also have "\<dots> = Fract (num R1) (den R1) + Fract (num R2) (den R2)"
    using d by (simp add: mult.commute)
  finally show ?thesis using assms by (simp only: Fract_num_den)
qed

lemma rat_of_ratio_subtract:
  assumes "ratio_ok R1" "ratio_ok R2"
  shows "rat_of_ratio (ratio_subtract R1 R2) = rat_of_ratio R1 - rat_of_ratio R2"
proof -
  have d: "den R1 \<noteq> 0" "den R2 \<noteq> 0" using den_pos assms by fastforce+
  have "rat_of_ratio (ratio_subtract R1 R2) = Fract (num R1 * den R2 - num R2 * den R1) (den R1 * den R2)"
    using d by (simp add: ratio_subtract_def rat_of_ratio_type)
  also have "\<dots> = Fract (num R1) (den R1) - Fract (num R2) (den R2)"
    using d by (simp add: mult.commute)
  finally show ?thesis using assms by (simp only: Fract_num_den)
qed

lemma rat_of_ratio_multiply:
  assumes "ratio_ok R1" "ratio_ok R2"
  shows "rat_of_ratio (ratio_multiply R1 R2) = rat_of_ratio R1 * rat_of_ratio R2"
proof -
  have d: "den R1 \<noteq> 0" "den R2 \<noteq> 0" using den_pos assms by fastforce+
  have "rat_of_ratio (ratio_multiply R1 R2) = Fract (num R1 * num R2) (den R1 * den R2)"
    using d by (simp add: ratio_multiply_def rat_of_ratio_type)
  also have "\<dots> = Fract (num R1) (den R1) * Fract (num R2) (den R2)"
    by simp
  finally show ?thesis using assms by (simp only: Fract_num_den)
qed

lemma num_eq_0_iff: "ratio_ok R \<Longrightarrow> num R = 0 \<longleftrightarrow> rat_of_ratio R = 0"
proof -
  assume ok: "ratio_ok R"
  have "Fract (num R) (den R) = 0 \<longleftrightarrow> num R = 0"
    using den_pos[OF ok] by (simp add: rat_number_collapse Fract_of_int_quotient)
  with ok show ?thesis by (simp only: Fract_num_den)
qed

lemma ratio_divide_Some:
  assumes "ratio_ok R1" "ratio_ok R2" "rat_of_ratio R2 \<noteq> 0"
  shows "\<exists>R. ratio_divide R1 R2 = Some R \<and> ratio_ok R \<and>
             rat_of_ratio R = rat_of_ratio R1 / rat_of_ratio R2"
proof -
  have d: "den R1 \<noteq> 0" "den R2 \<noteq> 0" using den_pos assms by fastforce+
  have n: "num R2 \<noteq> 0" using assms by (simp add: num_eq_0_iff)
  let ?Q = "Ratio (num R1 * den R2) (den R1 * num R2)"
  have ok: "ratio_ok ?Q" using d n by simp
  have "rat_of_ratio (ratio_type ?Q) = Fract (num R1 * den R2) (den R1 * num R2)"
    using ok by (simp only: rat_of_ratio_type rat_of_ratio.simps)
  also have "\<dots> = Fract (num R1) (den R1) / Fract (num R2) (den R2)"
    by simp
  finally have "rat_of_ratio (ratio_type ?Q) = rat_of_ratio R1 / rat_of_ratio R2"
    using assms by (simp only: Fract_num_den)
  then show ?thesis using n ok by (simp add: ratio_divide_def ratio_ok_type)
qed

lemma ratio_divide_None: "ratio_ok R2 \<Longrightarrow> rat_of_ratio R2 = 0 \<Longrightarrow> ratio_divide R1 R2 = None"
  by (simp add: ratio_divide_def num_eq_0_iff)

section \<open>Units are well-formed descriptors\<close>

lemma unit_ok_ratios:
  "unit_ok U \<Longrightarrow>
     ratio_ok (conversion_ratio U) \<and> ratio_ok (pi_exponent_ratio U) \<and>
     ratio_ok (translation_ratio U) \<and> base_unit_ok (base_unit_type U)"
  by (induction U) (simp_all add: ratio_ok_add ratio_ok_multiply)

lemma unit_ok_conversion: "unit_ok U \<Longrightarrow> ratio_ok (conversion_ratio U)"
  and unit_ok_pi_exponent: "unit_ok U \<Longrightarrow> ratio_ok (pi_exponent_ratio U)"
  and unit_ok_translation: "unit_ok U \<Longrightarrow> ratio_ok (translation_ratio U)"
  and unit_ok_base_unit: "unit_ok U \<Longrightarrow> base_unit_ok (base_unit_type U)"
  by (simp_all add: unit_ok_ratios)

text \<open>
  \<^verbatim>\<open>is_convertible_unit\<close> compares base unit types. For exponents in lowest terms
  two base unit types are the same exactly when the dimension vectors are equal.
\<close>

lemma coprime_num_den: "ratio_ok R \<Longrightarrow> coprime (num R) (den R)"
proof (cases R)
  case (Ratio N D)
  assume "ratio_ok R"
  with Ratio have D: "D \<noteq> 0" by simp
  define x where "x = abs N div gcd N D"
  define y where "y = abs D div gcd N D"
  have g: "gcd (abs N) (abs D) = gcd N D" by simp
  have "coprime (abs N div gcd (abs N) (abs D)) (abs D div gcd (abs N) (abs D))"
    using D by (intro div_gcd_coprime) simp
  then have c: "coprime x y" by (simp only: g x_def y_def)
  have n: "num R = sgn N * sgn D * x" and d: "den R = y"
    by (simp_all only: Ratio num.simps den.simps x_def y_def)
  have "sgn N * sgn D = 1 \<or> sgn N * sgn D = - 1 \<or> sgn N * sgn D = 0"
    by (auto simp: sgn_if)
  then consider "num R = x" | "num R = - x" | "N = 0"
    using n D by (auto simp: sgn_if split: if_splits)
  then show ?thesis
  proof cases
    case 1
    with c d show ?thesis by simp
  next
    case 2
    with c d show ?thesis by simp
  next
    case 3
    with D Ratio show ?thesis by simp
  qed
qed

lemma quotient_of_num_den:
  assumes "ratio_ok R"
  shows "quotient_of (Fract (num R) (den R)) = (num R, den R)"
proof -
  have "Rat.normalize (num R, den R) = (num R, den R)"
    using den_pos[OF assms] coprime_num_den[OF assms] by (rule normalize_stable)
  then show ?thesis by (simp only: quotient_of_Fract)
qed

lemma reduced_ratio_eqI:
  assumes "ratio_ok R1" "ratio_ok R2" "ratio_type R1 = R1" "ratio_type R2 = R2"
    and "rat_of_ratio R1 = rat_of_ratio R2"
  shows "R1 = R2"
proof -
  have "Fract (num R1) (den R1) = Fract (num R2) (den R2)"
    using assms by (simp only: Fract_num_den)
  then have "quotient_of (Fract (num R1) (den R1)) = quotient_of (Fract (num R2) (den R2))"
    by (rule arg_cong)
  then have "(num R1, den R1) = (num R2, den R2)"
    by (simp only: quotient_of_num_den[OF assms(1)] quotient_of_num_den[OF assms(2)])
  then have "ratio_type R1 = ratio_type R2" by (simp only: ratio_type_def prod.inject)
  then show ?thesis by (simp only: assms(3,4))
qed


lemma reduced_list_eqI:
  "length es1 = length es2 \<Longrightarrow> list_all ratio_ok es1 \<Longrightarrow> list_all ratio_ok es2 \<Longrightarrow>
   list_all (\<lambda>e. ratio_type e = e) es1 \<Longrightarrow> list_all (\<lambda>e. ratio_type e = e) es2 \<Longrightarrow>
   map rat_of_ratio es1 = map rat_of_ratio es2 \<Longrightarrow> es1 = es2"
proof (induction es1 es2 rule: list_induct2)
  case Nil
  show ?case by simp
next
  case (Cons x xs y ys)
  have a: "ratio_ok x" "ratio_ok y" "list_all ratio_ok xs" "list_all ratio_ok ys"
    using Cons.prems(1,2) by simp_all
  have b: "ratio_type x = x" "ratio_type y = y" "list_all (\<lambda>e. ratio_type e = e) xs"
    "list_all (\<lambda>e. ratio_type e = e) ys"
    using Cons.prems(3,4) by (simp_all only: list.pred_inject)
  have c: "rat_of_ratio x = rat_of_ratio y" "map rat_of_ratio xs = map rat_of_ratio ys"
    using Cons.prems(5) by simp_all
  have "x = y" using a(1,2) b(1,2) c(1) by (rule reduced_ratio_eqI)
  moreover have "xs = ys" using a(3,4) b(3,4) c(2) by (rule Cons.IH)
  ultimately show ?case by simp
qed

lemma is_convertible_unit_iff_dimension:
  assumes "unit_ok U1" "unit_ok U2" "reduced_exponents U1" "reduced_exponents U2"
  shows "is_convertible_unit U1 U2 \<longleftrightarrow> dimension U1 = dimension U2"
proof
  assume "is_convertible_unit U1 U2"
  then show "dimension U1 = dimension U2" by (simp add: is_convertible_unit_def dimension_def)
next
  assume d: "dimension U1 = dimension U2"
  obtain es1 where B1: "base_unit_type U1 = base_unit es1" by (cases "base_unit_type U1")
  obtain es2 where B2: "base_unit_type U2 = base_unit es2" by (cases "base_unit_type U2")
  from assms(1) have "base_unit_ok (base_unit es1)"
    by (simp only: B1[symmetric] unit_ok_base_unit)
  moreover from assms(2) have "base_unit_ok (base_unit es2)"
    by (simp only: B2[symmetric] unit_ok_base_unit)
  ultimately have l: "length es1 = length es2"
    and ok: "list_all ratio_ok es1" "list_all ratio_ok es2"
    by simp_all
  from assms(3,4) have r: "list_all (\<lambda>e. ratio_type e = e) es1" "list_all (\<lambda>e. ratio_type e = e) es2"
    by (simp_all only: reduced_exponents_def B1 B2 base_unit.sel)
  from d have m: "map rat_of_ratio es1 = map rat_of_ratio es2"
    by (simp only: dimension_def base_unit_of_def B1 B2 base_unit.sel)
  from l ok r m have "es1 = es2" by (rule reduced_list_eqI)
  with B1 B2 show "is_convertible_unit U1 U2" by (simp add: is_convertible_unit_def)
qed

section \<open>The conversion function\<close>

lemma PI_pos: "0 < PI"
  by (simp add: PI_def)

lemma convert_dispatch_same: "convert_dispatch UnitFrom UnitTo v True p t = Inr v"
  by (cases p; cases t) simp_all

lemma convert_same: "convert U U v = Inr v"
  by (simp add: convert_def is_convertible_unit_def isSame_def convert_dispatch_same)

lemma Ratio_of_Some:
  assumes "unit_ok UnitFrom" "unit_ok UnitTo" "rat_of_ratio (conversion_ratio UnitTo) \<noteq> 0"
  shows "\<exists>R. Ratio_of UnitFrom UnitTo = Some R \<and>
           real_of_int (num R) / real_of_int (den R) =
             of_rat (rat_of_ratio (conversion_ratio UnitFrom) / rat_of_ratio (conversion_ratio UnitTo))"
proof -
  from ratio_divide_Some[OF unit_ok_conversion[OF assms(1)] unit_ok_conversion[OF assms(2)] assms(3)]
  obtain R where R: "ratio_divide (conversion_ratio UnitFrom) (conversion_ratio UnitTo) = Some R"
    "ratio_ok R"
    "rat_of_ratio R = rat_of_ratio (conversion_ratio UnitFrom) / rat_of_ratio (conversion_ratio UnitTo)"
    by blast
  from R(2) have "real_of_int (num R) / real_of_int (den R) = of_rat (rat_of_ratio R)"
    by (rule real_num_den)
  with R(1,3) show ?thesis by (simp add: Ratio_of_def)
qed

lemma Translation_of_Some:
  assumes "unit_ok UnitFrom" "unit_ok UnitTo" "rat_of_ratio (conversion_ratio UnitTo) \<noteq> 0"
  shows "\<exists>R. Translation_of UnitFrom UnitTo = Some R \<and>
           real_of_int (num R) / real_of_int (den R) =
             of_rat ((rat_of_ratio (translation_ratio UnitFrom) - rat_of_ratio (translation_ratio UnitTo))
                     / rat_of_ratio (conversion_ratio UnitTo))"
proof -
  let ?D = "ratio_subtract (translation_ratio UnitFrom) (translation_ratio UnitTo)"
  have okD: "ratio_ok ?D"
    using assms by (simp add: ratio_ok_subtract unit_ok_translation)
  have vD: "rat_of_ratio ?D =
      rat_of_ratio (translation_ratio UnitFrom) - rat_of_ratio (translation_ratio UnitTo)"
    using assms by (simp add: rat_of_ratio_subtract unit_ok_translation)
  from ratio_divide_Some[OF okD unit_ok_conversion[OF assms(2)] assms(3)]
  obtain R where R: "ratio_divide ?D (conversion_ratio UnitTo) = Some R" "ratio_ok R"
    "rat_of_ratio R = rat_of_ratio ?D / rat_of_ratio (conversion_ratio UnitTo)"
    by blast
  from R(2) have "real_of_int (num R) / real_of_int (den R) = of_rat (rat_of_ratio R)"
    by (rule real_num_den)
  with R(1,3) vD show ?thesis by (simp add: Translation_of_def)
qed

lemma PiRatio_of_value:
  assumes "unit_ok UnitFrom" "unit_ok UnitTo"
  shows "real_of_int (num (PiRatio_of UnitFrom UnitTo)) / real_of_int (den (PiRatio_of UnitFrom UnitTo)) =
           of_rat (rat_of_ratio (pi_exponent_ratio UnitFrom) - rat_of_ratio (pi_exponent_ratio UnitTo))"
proof -
  have "ratio_ok (PiRatio_of UnitFrom UnitTo)"
    using assms by (simp add: PiRatio_of_def ratio_ok_subtract unit_ok_pi_exponent)
  then have "real_of_int (num (PiRatio_of UnitFrom UnitTo)) / real_of_int (den (PiRatio_of UnitFrom UnitTo))
      = of_rat (rat_of_ratio (PiRatio_of UnitFrom UnitTo))"
    by (rule real_num_den)
  then show ?thesis
    using assms by (simp add: PiRatio_of_def rat_of_ratio_subtract unit_ok_pi_exponent)
qed

text \<open>
  What \<^verbatim>\<open>convert\<close> computes between two different unit types of one base unit, in
  terms of the rationals the units denote.
\<close>

lemma convert_value:
  assumes ok: "unit_ok UnitFrom" "unit_ok UnitTo"
    and conv: "is_convertible_unit UnitFrom UnitTo"
    and ne: "UnitFrom \<noteq> UnitTo"
    and nz: "rat_of_ratio (conversion_ratio UnitTo) \<noteq> 0"
  shows "convert UnitFrom UnitTo v =
     Inr (v * of_rat (rat_of_ratio (conversion_ratio UnitFrom) / rat_of_ratio (conversion_ratio UnitTo))
          * (if piRequired UnitFrom UnitTo
             then PI powr of_rat (rat_of_ratio (pi_exponent_ratio UnitFrom)
                                  - rat_of_ratio (pi_exponent_ratio UnitTo))
             else 1)
          + (if translationRequired UnitFrom UnitTo
             then of_rat ((rat_of_ratio (translation_ratio UnitFrom)
                           - rat_of_ratio (translation_ratio UnitTo))
                          / rat_of_ratio (conversion_ratio UnitTo))
             else 0))"
proof -
  from Ratio_of_Some[OF ok nz] obtain R where R: "Ratio_of UnitFrom UnitTo = Some R"
    "real_of_int (num R) / real_of_int (den R) =
       of_rat (rat_of_ratio (conversion_ratio UnitFrom) / rat_of_ratio (conversion_ratio UnitTo))"
    by blast
  from Translation_of_Some[OF ok nz] obtain Tr where Tr: "Translation_of UnitFrom UnitTo = Some Tr"
    "real_of_int (num Tr) / real_of_int (den Tr) =
       of_rat ((rat_of_ratio (translation_ratio UnitFrom) - rat_of_ratio (translation_ratio UnitTo))
               / rat_of_ratio (conversion_ratio UnitTo))"
    by blast
  note P = PiRatio_of_value[OF ok]
  have scale: "real_of_int (num R) * v / real_of_int (den R) =
      v * of_rat (rat_of_ratio (conversion_ratio UnitFrom) / rat_of_ratio (conversion_ratio UnitTo))"
  proof -
    have "real_of_int (num R) * v / real_of_int (den R) =
        v * (real_of_int (num R) / real_of_int (den R))"
      by simp
    then show ?thesis by (simp only: R(2))
  qed
  have same: "isSame UnitFrom UnitTo = False" using ne by (simp add: isSame_def)
  show ?thesis
  proof (cases "piRequired UnitFrom UnitTo"; cases "translationRequired UnitFrom UnitTo")
    assume "piRequired UnitFrom UnitTo" "translationRequired UnitFrom UnitTo"
    then show ?thesis
      using conv same R(1) Tr scale P by (simp add: convert_def)
  next
    assume "piRequired UnitFrom UnitTo" "\<not> translationRequired UnitFrom UnitTo"
    then show ?thesis
      using conv same R(1) scale P by (simp add: convert_def)
  next
    assume "\<not> piRequired UnitFrom UnitTo" "translationRequired UnitFrom UnitTo"
    then show ?thesis
      using conv same R(1) Tr scale by (simp add: convert_def)
  next
    assume "\<not> piRequired UnitFrom UnitTo" "\<not> translationRequired UnitFrom UnitTo"
    then show ?thesis
      using conv same R(1) scale by (simp add: convert_def)
  qed
qed

lemma convert_ratio_zero:
  assumes "unit_ok UnitTo" "is_convertible_unit UnitFrom UnitTo" "UnitFrom \<noteq> UnitTo"
    and "rat_of_ratio (conversion_ratio UnitTo) = 0"
  shows "convert UnitFrom UnitTo v = Inl Ratio_division_by_zero"
proof -
  have "Ratio_of UnitFrom UnitTo = None"
    using assms by (simp add: Ratio_of_def ratio_divide_None unit_ok_conversion)
  moreover have "isSame UnitFrom UnitTo = False" using assms by (simp add: isSame_def)
  ultimately show ?thesis
    using assms(2)
    by (cases "piRequired UnitFrom UnitTo"; cases "translationRequired UnitFrom UnitTo")
       (simp_all add: convert_def)
qed

text \<open>
  Claim C1. For every value \<open>x\<close> and every pair of units with equal dimension vectors
  (the same base unit, which is what \<^verbatim>\<open>is_convertible_unit\<close> tests and \<^verbatim>\<open>convert\<close>
  asserts; see \<open>is_convertible_unit_iff_dimension\<close>), equal exponents of pi and equal
  translation offsets, but different
  conversion ratios, \<^verbatim>\<open>convert\<close> returns \<open>x\<close> times the exact rational quotient of
  the conversion ratio of the source unit by that of the target unit. The quotient
  exists when the ratio of the target unit is not zero; the header computes it with
  \<^verbatim>\<open>std::ratio_divide\<close>, which does not compile otherwise.
\<close>

theorem convert_ratio_only:
  assumes "unit_ok UnitFrom" and "unit_ok UnitTo"
    and "is_convertible_unit UnitFrom UnitTo"
    and "rat_of_ratio (pi_exponent_ratio UnitFrom) = rat_of_ratio (pi_exponent_ratio UnitTo)"
    and "rat_of_ratio (translation_ratio UnitFrom) = rat_of_ratio (translation_ratio UnitTo)"
    and "rat_of_ratio (conversion_ratio UnitFrom) \<noteq> rat_of_ratio (conversion_ratio UnitTo)"
    and "rat_of_ratio (conversion_ratio UnitTo) \<noteq> 0"
  shows "convert UnitFrom UnitTo x =
     Inr (x * of_rat (rat_of_ratio (conversion_ratio UnitFrom)
                      / rat_of_ratio (conversion_ratio UnitTo)))"
proof -
  from assms(6) have ne: "UnitFrom \<noteq> UnitTo" by auto
  have "PI powr 0 = 1" using PI_pos by simp
  then show ?thesis
    using convert_value[OF assms(1,2,3) ne assms(7), of x] assms(4,5) by simp
qed


theorem convert_ratio_only_witness:
  "unit_ok feet \<and> unit_ok meters \<and> is_convertible_unit feet meters
   \<and> rat_of_ratio (pi_exponent_ratio feet) = rat_of_ratio (pi_exponent_ratio meters)
   \<and> rat_of_ratio (translation_ratio feet) = rat_of_ratio (translation_ratio meters)
   \<and> rat_of_ratio (conversion_ratio feet) \<noteq> rat_of_ratio (conversion_ratio meters)
   \<and> rat_of_ratio (conversion_ratio meters) \<noteq> 0
   \<and> convert feet meters 10 = Inr (10 * (381 / 1250))"
proof -
  have h1: "unit_ok feet" by code_simp
  have h2: "unit_ok meters" by code_simp
  have h3: "is_convertible_unit feet meters" by code_simp
  have h4: "rat_of_ratio (pi_exponent_ratio feet) = rat_of_ratio (pi_exponent_ratio meters)"
    by code_simp
  have h5: "rat_of_ratio (translation_ratio feet) = rat_of_ratio (translation_ratio meters)"
    by code_simp
  have f: "rat_of_ratio (conversion_ratio feet) = 381 / 1250" by code_simp
  have m: "rat_of_ratio (conversion_ratio meters) = 1" by code_simp
  have h6: "rat_of_ratio (conversion_ratio feet) \<noteq> rat_of_ratio (conversion_ratio meters)"
    by (simp add: f m)
  have h7: "rat_of_ratio (conversion_ratio meters) \<noteq> 0" by (simp add: m)
  have "convert feet meters 10 = Inr (10 * (381 / 1250))"
    using convert_ratio_only[OF h1 h2 h3 h4 h5 h6 h7, of 10]
    by (simp add: f m of_rat_divide)
  with h1 h2 h3 h4 h5 h6 h7 show ?thesis by blast
qed

text \<open>
  Claim C4. For every unit \<open>U\<close> and every value \<open>x\<close>, \<^verbatim>\<open>convert\<close> from \<open>U\<close> to
  \<open>U\<close> returns \<open>x\<close> itself: the tag \<^verbatim>\<open>isSame\<close> holds, and each overload of
  \<^verbatim>\<open>_convert\<close> for that tag returns its argument, whatever the other two tags are,
  with no arithmetic on it.
\<close>

theorem convert_identity:
  "isSame U U \<and> convert_dispatch U U x True p t = Inr x \<and> convert U U x = Inr x"
  by (simp add: isSame_def convert_dispatch_same convert_same)

theorem convert_identity_witness:
  "isSame fahrenheit fahrenheit
   \<and> convert_dispatch fahrenheit fahrenheit 98 True False True = Inr 98
   \<and> convert fahrenheit fahrenheit 98 = Inr 98"
  using convert_identity[of fahrenheit 98 False True] by simp

section \<open>Conversions between units of the header\<close>

lemma celsius_fahrenheit_tags:
  "is_convertible_unit celsius fahrenheit" "\<not> isSame celsius fahrenheit"
  "\<not> piRequired celsius fahrenheit" "translationRequired celsius fahrenheit"
  by code_simp+

lemma celsius_fahrenheit_ratios:
  "Ratio_of celsius fahrenheit = Some (Ratio 9 5)"
  "Translation_of celsius fahrenheit = Some (Ratio 32 1)"
  "num (Ratio 9 5) = 9" "den (Ratio 9 5) = 5" "num (Ratio 32 1) = 32" "den (Ratio 32 1) = 1"
  by code_simp+

lemma convert_celsius_fahrenheit: "convert celsius fahrenheit v = Inr (9 * v / 5 + 32)"
  using celsius_fahrenheit_tags
  by (simp add: convert_def celsius_fahrenheit_ratios del: num.simps den.simps)

text \<open>
  Claim C2. Converting a Celsius value to Fahrenheit maps 0 to exactly 32 and 100 to
  exactly 212. The conversion takes the overload of \<^verbatim>\<open>_convert\<close> for different units
  with a translation and without pi; Celsius is Kelvin with the offset 27315/100, and
  Fahrenheit is Celsius with the ratio 5/9 and the offset -160/9.
\<close>

theorem celsius_to_fahrenheit:
  "convert celsius fahrenheit 0 = Inr 32 \<and> convert celsius fahrenheit 100 = Inr 212
   \<and> convert celsius fahrenheit v = convert_dispatch celsius fahrenheit v False False True
   \<and> rat_of_ratio (translation_ratio celsius) = 27315 / 100
   \<and> rat_of_ratio (conversion_ratio fahrenheit) = 5 / 9"
proof -
  have "convert celsius fahrenheit v = convert_dispatch celsius fahrenheit v False False True"
    using celsius_fahrenheit_tags by (simp add: convert_def)
  moreover have "rat_of_ratio (translation_ratio celsius) = 27315 / 100" by code_simp
  moreover have "rat_of_ratio (conversion_ratio fahrenheit) = 5 / 9" by code_simp
  ultimately show ?thesis by (simp add: convert_celsius_fahrenheit)
qed

theorem celsius_to_fahrenheit_witness:
  "convert celsius fahrenheit 0 = Inr 32 \<and> convert celsius fahrenheit 100 = Inr 212
   \<and> convert celsius fahrenheit 37 = convert_dispatch celsius fahrenheit 37 False False True"
  using celsius_to_fahrenheit[of 37] by simp

lemma years_weeks_tags:
  "is_convertible_unit years weeks" "\<not> isSame years weeks"
  "\<not> piRequired years weeks" "\<not> translationRequired years weeks"
  by code_simp+

lemma years_weeks_ratio:
  "Ratio_of years weeks = Some (Ratio 365 7)" "num (Ratio 365 7) = 365" "den (Ratio 365 7) = 7"
  by code_simp+

lemma convert_years_weeks: "convert years weeks v = Inr (365 * v / 7)"
  using years_weeks_tags
  by (simp add: convert_def years_weeks_ratio del: num.simps den.simps)

text \<open>
  Claim C3, as stated: \<^verbatim>\<open>convert\<close> from years to weeks at 2 is within 5e-7 of
  104.357142857. It is not: a year is 365 days and a week 7 days, so the conversion
  multiplies by 365/7 and returns 730/7 = 104.285714285..., which is 0.0714... away.
\<close>

theorem years_to_weeks_counterexample:
  "convert years weeks 2 = Inr (730 / 7)
   \<and> \<not> \<bar>730 / 7 - 104.357142857\<bar> \<le> (5 / 10 ^ 7 :: real)"
  by (simp add: convert_years_weeks)

text \<open>
  Claim C3, amended: \<^verbatim>\<open>convert\<close> from years to weeks at 2, where a year is 365
  days, a day 24 hours, an hour 60 minutes, a minute 60 seconds and a week 7 days,
  returns 730/7 = 104.285714285... weeks, which is within 5e-7 of 104.285714286.
\<close>

theorem years_to_weeks:
  "convert years weeks 2 = Inr (730 / 7)
   \<and> \<bar>730 / 7 - 104.285714286\<bar> \<le> (5 / 10 ^ 7 :: real)
   \<and> rat_of_ratio (conversion_ratio years) = 365 * 24 * 60 * 60
   \<and> rat_of_ratio (conversion_ratio weeks) = 7 * 24 * 60 * 60"
proof -
  have "rat_of_ratio (conversion_ratio years) = 365 * 24 * 60 * 60" by code_simp
  moreover have "rat_of_ratio (conversion_ratio weeks) = 7 * 24 * 60 * 60" by code_simp
  ultimately show ?thesis by (simp add: convert_years_weeks)
qed

section \<open>The descriptors of derived and multiplied units\<close>

text \<open>
  Claim C5. For every well-formed unit \<open>B\<close> and all ratios \<open>Conversion\<close>,
  \<open>PiExponent\<close> and \<open>Translation\<close>, the unit
  \<^verbatim>\<open>unit<Conversion, B, PiExponent, Translation>\<close> has the dimension vector of \<open>B\<close>,
  the conversion ratio of \<open>B\<close> times \<open>Conversion\<close>, the exponent of pi of \<open>B\<close> plus
  \<open>PiExponent\<close>, and the translation offset that is the conversion ratio of \<open>B\<close>
  times \<open>Translation\<close>, plus the translation offset of \<open>B\<close>. Where the unit is
  declared on a \<^verbatim>\<open>base_unit\<close> \<open>b\<close> itself, it has the exponents of \<open>b\<close> and the
  three ratios as they are given.
\<close>

theorem unit_derived:
  assumes "unit_ok B" and "ratio_ok Conversion" and "ratio_ok PiExponent" and "ratio_ok Translation"
  shows "base_unit_type (Unit Conversion B PiExponent Translation) = base_unit_type B
    \<and> dimension (Unit Conversion B PiExponent Translation) = dimension B
    \<and> rat_of_ratio (conversion_ratio (Unit Conversion B PiExponent Translation)) =
        rat_of_ratio (conversion_ratio B) * rat_of_ratio Conversion
    \<and> rat_of_ratio (pi_exponent_ratio (Unit Conversion B PiExponent Translation)) =
        rat_of_ratio (pi_exponent_ratio B) + rat_of_ratio PiExponent
    \<and> rat_of_ratio (translation_ratio (Unit Conversion B PiExponent Translation)) =
        rat_of_ratio (conversion_ratio B) * rat_of_ratio Translation
        + rat_of_ratio (translation_ratio B)
    \<and> dimension (UnitOfBase Conversion b PiExponent Translation) = map rat_of_ratio (Exponents b)
    \<and> conversion_ratio (UnitOfBase Conversion b PiExponent Translation) = Conversion
    \<and> pi_exponent_ratio (UnitOfBase Conversion b PiExponent Translation) = PiExponent
    \<and> translation_ratio (UnitOfBase Conversion b PiExponent Translation) = Translation"
  using assms
  by (simp add: dimension_def base_unit_of_def rat_of_ratio_multiply rat_of_ratio_add
      ratio_ok_multiply unit_ok_conversion unit_ok_pi_exponent unit_ok_translation)

theorem unit_derived_witness:
  "unit_ok celsius \<and> ratio_ok (Ratio 5 9) \<and> ratio_ok (Ratio 0 1) \<and> ratio_ok (Ratio (-160) 9)
   \<and> dimension fahrenheit = dimension celsius
   \<and> rat_of_ratio (conversion_ratio fahrenheit) = rat_of_ratio (conversion_ratio celsius) * (5 / 9)
   \<and> rat_of_ratio (pi_exponent_ratio fahrenheit) = rat_of_ratio (pi_exponent_ratio celsius) + 0
   \<and> rat_of_ratio (translation_ratio fahrenheit) =
       rat_of_ratio (conversion_ratio celsius) * (- 160 / 9) + rat_of_ratio (translation_ratio celsius)"
proof -
  have h1: "unit_ok celsius" by code_simp
  have h2: "ratio_ok (Ratio 5 9)" and h3: "ratio_ok (Ratio 0 1)" and h4: "ratio_ok (Ratio (-160) 9)"
    by simp_all
  show ?thesis
    using unit_derived[OF h1 h2 h3 h4] h1 h2 h3 h4
    by (simp add: fahrenheit_def Fract_of_int_quotient)
qed

lemma map_rat_of_ratio_add:
  "length es1 = length es2 \<Longrightarrow> list_all ratio_ok es1 \<Longrightarrow> list_all ratio_ok es2 \<Longrightarrow>
     map rat_of_ratio (map2 ratio_add es1 es2) =
       map2 (+) (map rat_of_ratio es1) (map rat_of_ratio es2)"
  by (induction es1 es2 rule: list_induct2) (simp_all add: rat_of_ratio_add)

lemma dimension_base_unit_multiply:
  assumes "base_unit_ok B1" "base_unit_ok B2"
  shows "map rat_of_ratio (Exponents (base_unit_multiply B1 B2)) =
           map2 (+) (map rat_of_ratio (Exponents B1)) (map rat_of_ratio (Exponents B2))"
proof (cases B1; cases B2)
  fix es1 es2 assume B: "B1 = base_unit es1" "B2 = base_unit es2"
  with assms have "length es1 = length es2" "list_all ratio_ok es1" "list_all ratio_ok es2"
    by simp_all
  then have "map rat_of_ratio (map2 ratio_add es1 es2) =
      map2 (+) (map rat_of_ratio es1) (map rat_of_ratio es2)"
    by (rule map_rat_of_ratio_add)
  then show ?thesis by (simp only: B base_unit_multiply.simps base_unit.sel)
qed

lemma base_unit_ok_multiply:
  assumes "base_unit_ok B1" "base_unit_ok B2"
  shows "base_unit_ok (base_unit_multiply B1 B2)"
proof (cases B1; cases B2)
  fix es1 es2 assume B: "B1 = base_unit es1" "B2 = base_unit es2"
  with assms have l: "length es1 = length es2" and ok: "list_all ratio_ok es1" "list_all ratio_ok es2"
    by simp_all
  from l ok have "list_all ratio_ok (map2 ratio_add es1 es2)"
    by (induction es1 es2 rule: list_induct2) (simp_all add: ratio_ok_add)
  with assms B show ?thesis by simp
qed

lemma unit_ok_multiply: "unit_ok A \<Longrightarrow> unit_ok B \<Longrightarrow> unit_ok (unit_multiply A B)"
  by (simp add: unit_multiply_def base_unit_of_def base_unit_ok_multiply ratio_ok_multiply
      ratio_ok_add unit_ok_conversion unit_ok_pi_exponent unit_ok_base_unit)

lemma dimension_unit_multiply:
  "unit_ok A \<Longrightarrow> unit_ok B \<Longrightarrow>
     dimension (unit_multiply A B) = map2 (+) (dimension A) (dimension B)"
  by (simp add: dimension_def unit_multiply_def base_unit_of_def dimension_base_unit_multiply
      unit_ok_base_unit)

text \<open>
  Claim C6. For every pair of well-formed units \<open>A\<close> and \<open>B\<close>, \<^verbatim>\<open>unit_multiply\<close>
  yields a unit whose dimension vector is the elementwise sum of the two dimension
  vectors, whose conversion ratio is the exact rational product of the two conversion
  ratios, whose exponent of pi is the sum of the two exponents, and whose translation
  offset is 0 (the type \<^verbatim>\<open>std::ratio<0>\<close>).
\<close>

theorem unit_multiply_descriptor:
  assumes "unit_ok A" and "unit_ok B"
  shows "dimension (unit_multiply A B) = map2 (+) (dimension A) (dimension B)
    \<and> rat_of_ratio (conversion_ratio (unit_multiply A B)) =
        rat_of_ratio (conversion_ratio A) * rat_of_ratio (conversion_ratio B)
    \<and> rat_of_ratio (pi_exponent_ratio (unit_multiply A B)) =
        rat_of_ratio (pi_exponent_ratio A) + rat_of_ratio (pi_exponent_ratio B)
    \<and> rat_of_ratio (translation_ratio (unit_multiply A B)) = 0
    \<and> translation_ratio (unit_multiply A B) = Ratio 0 1"
  using assms
  by (simp add: dimension_unit_multiply rat_of_ratio_multiply rat_of_ratio_add
      unit_ok_conversion unit_ok_pi_exponent rat_number_collapse)
     (simp add: unit_multiply_def rat_of_ratio_multiply rat_of_ratio_add
      unit_ok_conversion unit_ok_pi_exponent rat_number_collapse)

theorem unit_multiply_descriptor_witness:
  "unit_ok feet \<and> unit_ok celsius
   \<and> dimension (unit_multiply feet celsius) = [1, 0, 0, 0, 0, 1, 0, 0]
   \<and> rat_of_ratio (conversion_ratio (unit_multiply feet celsius)) = 381 / 1250 * 1
   \<and> rat_of_ratio (pi_exponent_ratio (unit_multiply feet celsius)) = 0 + 0
   \<and> rat_of_ratio (translation_ratio (unit_multiply feet celsius)) = 0"
proof -
  have h1: "unit_ok feet" and h2: "unit_ok celsius" by code_simp+
  have d: "dimension feet = [1, 0, 0, 0, 0, 0, 0, 0]" "dimension celsius = [0, 0, 0, 0, 0, 1, 0, 0]"
    by code_simp+
  have r: "rat_of_ratio (conversion_ratio feet) = 381 / 1250"
    "rat_of_ratio (conversion_ratio celsius) = 1"
    "rat_of_ratio (pi_exponent_ratio feet) = 0" "rat_of_ratio (pi_exponent_ratio celsius) = 0"
    by code_simp+
  show ?thesis
    using unit_multiply_descriptor[OF h1 h2] h1 h2 by (simp add: d r rat_number_collapse)
qed

section \<open>Containers\<close>

text \<open>
  Claim C10. A default-constructed decibel-scale container has the stored linear
  magnitude 1, which reads back as 0 dB; a default-constructed linear-scale container has
  the stored value 0, which reads back as 0. The default constructor of \<^verbatim>\<open>unit_t\<close>
  passes 0 to the constructor of the scale, which agrees with the scale's own default
  constructor.
\<close>

theorem unit_t_default_value:
  "m_value (unit_t_default U decibel_scale) = 1
   \<and> call (unit_t_default U decibel_scale) = Some 0
   \<and> m_value (unit_t_default U linear_scale) = 0
   \<and> call (unit_t_default U linear_scale) = Some 0
   \<and> m_value (unit_t_default U S) = nls_default_ctor S"
  by (cases S) (simp_all add: unit_t_default_def call_def)

theorem unit_t_default_value_witness:
  "m_value (unit_t_default scalar decibel_scale) = 1
   \<and> call (unit_t_default scalar decibel_scale) = Some 0
   \<and> m_value (unit_t_default meters linear_scale) = 0
   \<and> call (unit_t_default meters linear_scale) = Some 0"
  using unit_t_default_value[of scalar decibel_scale] unit_t_default_value[of meters linear_scale]
  by simp

lemma base_unit_of_unit_eq: "base_unit_of_unit U = base_unit_of (base_unit_type U)"
  by (induction U) simp_all

lemma compound_unit_single: "compound_unit U [] = U"
  and compound_unit_pair: "compound_unit U1 [U2] = unit_multiply U1 U2"
  by simp_all

text \<open>
  Claim C9. For every two decibel-scale containers of the same dimension, \<^verbatim>\<open>operator+\<close>
  returns a container whose stored linear magnitude is the stored magnitude of the left
  operand times the stored magnitude of the right operand converted into the unit of
  the left operand (and does not compile where that conversion does not); the general
  decibel overload is the one selected. In particular 1 dB + 1 dB has the stored
  magnitude \<open>10 powr (1/10) * 10 powr (1/10)\<close>.
\<close>

theorem operator_plus_decibel:
  assumes "has_decibel_scale [lhs, rhs]" and "is_convertible_unit_t lhs rhs"
  shows "operator_plus lhs rhs =
     (case convert (unit_type rhs) (unit_type lhs) (m_value rhs) of
        Inl e \<Rightarrow> Inl e
      | Inr v \<Rightarrow>
          Inr \<lparr>unit_type = squared (unit_type lhs), non_linear_scale_type = decibel_scale,
               m_value = m_value lhs * v\<rparr>)
    \<and> map_sum id m_value (operator_plus (dB_t 1) (dB_t 1)) = Inr (10 powr (1 / 10) * 10 powr (1 / 10))"
proof -
  from assms(1) have dec: "non_linear_scale_type lhs = decibel_scale"
    "non_linear_scale_type rhs = decibel_scale"
    by (simp_all add: has_decibel_scale_def)
  from assms(2) have same: "base_unit_of_unit (unit_type lhs) = base_unit_of_unit (unit_type rhs)"
    by (simp add: is_convertible_unit_t_def is_convertible_unit_def base_unit_of_unit_eq)
  have sc: "base_unit_of_unit scalar = scalar_unit"
    by (simp add: scalar_def base_unit_of_def)
  have f: "(\<not> is_scalar_unit [lhs] \<and> is_dB_t rhs) = False"
    using same sc by (auto simp: is_scalar_unit_def is_dB_t_def)
  have g: "(\<not> is_scalar_unit [rhs] \<and> is_dB_t lhs) = False"
    using same sc by (auto simp: is_scalar_unit_def is_dB_t_def)
  have general: "operator_plus lhs rhs =
     (case convert (unit_type rhs) (unit_type lhs) (m_value rhs) of
        Inl e \<Rightarrow> Inl e
      | Inr v \<Rightarrow>
          Inr \<lparr>unit_type = squared (unit_type lhs), non_linear_scale_type = decibel_scale,
               m_value = m_value lhs * v\<rparr>)"
    using dec
    by (simp add: operator_plus_def f g is_same_scale_def has_linear_scale_def
        has_decibel_scale_def unit_t_default_def split: sum.splits)
  have "operator_plus (dB_t 1) (dB_t 1) =
      Inr \<lparr>unit_type = squared scalar, non_linear_scale_type = decibel_scale,
           m_value = 10 powr (1 / 10) * 10 powr (1 / 10)\<rparr>"
    by (simp add: operator_plus_def is_same_scale_def has_linear_scale_def has_decibel_scale_def
        is_scalar_unit_def is_dB_t_def dB_t_def unit_t_ctor_def unit_t_default_def convert_same sc)
  with general show ?thesis by simp
qed

theorem operator_plus_decibel_witness:
  "has_decibel_scale [dB_t 1, dB_t 1] \<and> is_convertible_unit_t (dB_t 1) (dB_t 1)
   \<and> operator_plus (dB_t 1) (dB_t 1) =
       Inr \<lparr>unit_type = squared scalar, non_linear_scale_type = decibel_scale,
            m_value = 10 powr (1 / 10) * 10 powr (1 / 10)\<rparr>"
proof -
  have h1: "has_decibel_scale [dB_t 1, dB_t 1]"
    by (simp add: has_decibel_scale_def dB_t_def unit_t_ctor_def)
  have h2: "is_convertible_unit_t (dB_t 1) (dB_t 1)"
    by (simp add: is_convertible_unit_t_def is_convertible_unit_def)
  show ?thesis
    using operator_plus_decibel[OF h1 h2] h1 h2
    by (simp add: convert_same) (simp add: dB_t_def unit_t_ctor_def)
qed

subsection \<open>Comparison\<close>

text \<open>
  Five of the six comparison operators compare the stored value of the left operand
  with the stored value of the right operand converted into the unit of the left
  operand.
\<close>

lemma comparison_operators:
  assumes "convert (unit_type rhs) (unit_type lhs) (m_value rhs) = Inr v"
  shows "operator_less_eq lhs rhs = Inr (m_value lhs \<le> v)"
    and "operator_greater lhs rhs = Inr (m_value lhs > v)"
    and "operator_greater_eq lhs rhs = Inr (m_value lhs \<ge> v)"
    and "operator_eq lhs rhs = Inr (m_value lhs = v)"
    and "operator_not_eq lhs rhs = Inr (m_value lhs \<noteq> v)"
  using assms
  by (simp_all add: operator_less_eq_def operator_greater_def operator_greater_eq_def
      operator_eq_def operator_not_eq_def)

text \<open>
  \<^verbatim>\<open>operator<\<close> does not: for units that are not scalar it does not compile, since
  the container it builds from the comparison has no conversion to \<^verbatim>\<open>bool\<close>.
\<close>

lemma operator_less_not_scalar:
  assumes "convert (unit_type rhs) (unit_type lhs) (m_value rhs) = Inr v"
    and "base_unit_of_unit (unit_type lhs) \<noteq> scalar_unit"
  shows "operator_less lhs rhs = Inl No_conversion_to_arithmetic"
  using assms by (simp add: operator_less_def to_arithmetic_def unit_t_ctor_def)

text \<open>
  On \<^verbatim>\<open>dB_t\<close> it compiles and is true for all operands: the decibel constructor
  turns the comparison into \<open>10 powr (1/10)\<close> or \<open>10 powr 0\<close>, neither of which is zero.
\<close>

lemma operator_less_dB_t: "operator_less (dB_t a) (dB_t b) = Inr True"
proof -
  have sc: "base_unit_of_unit scalar = scalar_unit"
    by (simp add: scalar_def base_unit_of_def)
  have s: "UnitOfBase (Ratio 1 1) scalar_unit (Ratio 0 1) (Ratio 0 1) = scalar"
    by (simp add: scalar_def)
  show ?thesis
    by (simp add: operator_less_def dB_t_def unit_t_ctor_def convert_same to_arithmetic_def
        sc s to_bool_def)
qed

text \<open>
  Claim C8 says that each of the six comparison operators returns the comparison of the
  stored value of the left operand with the converted stored value of the right
  operand. For \<^verbatim>\<open>operator<\<close> the header does otherwise: \<^verbatim>\<open>dB_t(0) < dB_t(0)\<close>
  compares the stored values 1 and 1 and yet returns \<open>true\<close>, and
  \<^verbatim>\<open>meter_t(1) < meter_t(2)\<close> does not compile, where \<^verbatim>\<open>operator<=\<close> on the same
  operands returns the comparison.
\<close>

theorem operator_less_wraps_result:
  "convert (unit_type (dB_t 0)) (unit_type (dB_t 0)) (m_value (dB_t 0)) = Inr 1
   \<and> m_value (dB_t 0) = 1
   \<and> operator_less (dB_t 0) (dB_t 0) = Inr True
   \<and> operator_less_eq (dB_t 0) (dB_t 0) = Inr True
   \<and> operator_greater_eq (dB_t 0) (dB_t 0) = Inr True
   \<and> operator_greater (dB_t 0) (dB_t 0) = Inr False
   \<and> operator_less (meter_t 1) (meter_t 2) = Inl No_conversion_to_arithmetic
   \<and> operator_less_eq (meter_t 1) (meter_t 2) = Inr True"
proof -
  have m: "m_value (dB_t 0) = 1" by (simp add: dB_t_def unit_t_ctor_def)
  have c: "convert (unit_type (dB_t 0)) (unit_type (dB_t 0)) (m_value (dB_t 0)) = Inr 1"
    by (simp add: convert_same m)
  have ns: "base_unit_of_unit (unit_type (meter_t 1)) \<noteq> scalar_unit"
  proof -
    have "base_unit_of_unit meters \<noteq> scalar_unit" by code_simp
    then show ?thesis by (simp add: meter_t_def unit_t_ctor_def)
  qed
  have c2: "convert (unit_type (meter_t 2)) (unit_type (meter_t 1)) (m_value (meter_t 2)) = Inr 2"
    by (simp add: meter_t_def unit_t_ctor_def convert_same)
  have m1: "m_value (meter_t 1) = 1" by (simp add: meter_t_def unit_t_ctor_def)
  show ?thesis
    using comparison_operators[OF c] comparison_operators[OF c2]
      operator_less_not_scalar[OF c2 ns] m c m1
    by (simp add: operator_less_dB_t)
qed

subsection \<open>Multiplication\<close>

lemma map2_add_self: "map2 (+) xs xs = map (\<lambda>x. x * 2) (xs :: rat list)"
  by (induction xs) simp_all

lemma dimension_squared:
  assumes "unit_ok U"
  shows "dimension (squared U) = map (\<lambda>x. x * 2) (dimension U)"
proof (cases "base_unit_type U")
  case (base_unit es)
  from assms have "base_unit_ok (base_unit_type U)" by (rule unit_ok_base_unit)
  with base_unit have ok: "list_all ratio_ok es" by simp
  then have "map rat_of_ratio (map (\<lambda>e. ratio_multiply e (Ratio 2 1)) es) =
      map (\<lambda>x. x * 2) (map rat_of_ratio es)"
    by (induction es) (simp_all add: rat_of_ratio_multiply rat_number_collapse)
  then show ?thesis
    by (simp add: dimension_def squared_def base_unit_of_def base_unit Let_def)
qed

lemma dimension_convertible:
  "is_convertible_unit U1 U2 \<Longrightarrow> dimension U1 = dimension U2"
  by (simp add: is_convertible_unit_def dimension_def)

text \<open>
  Claim C7, as stated: for every two linear-scale containers whose units differ,
  \<^verbatim>\<open>operator*\<close> returns the product of the two stored values, with no conversion of
  either operand. It does not where the two units differ and have the same dimension:
  2 meters times 3 kilometers has the stored value 6000, in square meters, not 6.
\<close>

theorem operator_times_counterexample:
  "unit_type (meter_t 2) \<noteq> unit_type (kilometer_t 3)
   \<and> has_linear_scale [meter_t 2, kilometer_t 3]
   \<and> m_value (meter_t 2) * m_value (kilometer_t 3) = 6
   \<and> operator_times (meter_t 2) (kilometer_t 3) =
       Inr \<lparr>unit_type = squared meters, non_linear_scale_type = linear_scale, m_value = 6000\<rparr>"
proof -
  have "convert kilometers meters 3 = Inr 3000" by code_simp
  moreover have "is_convertible_unit kilometers meters" by code_simp
  moreover have "meters \<noteq> kilometers" by code_simp
  ultimately show ?thesis
    by (simp add: operator_times_def is_convertible_unit_t_def has_linear_scale_def meter_t_def
        kilometer_t_def unit_t_ctor_def is_convertible_unit_def)
qed

text \<open>
  Claim C7, amended. For every two linear-scale containers of well-formed units:
  when the dimension vectors of the two units differ (the units are not convertible),
  \<^verbatim>\<open>operator*\<close> returns a container of the product unit, whose dimension vector is the
  sum of the two dimension vectors, with the stored value
  \<open>lhs.m_value * rhs.m_value\<close> and no conversion; when the two units have the same
  dimension vector, it returns a container of the left unit squared, whose dimension
  vector is again the sum of the two, with the stored value \<open>lhs.m_value\<close> times
  \<open>rhs.m_value\<close> converted into the left unit (and does not compile where that
  conversion does not); when both operands have the same unit, that is the unit squared
  with the stored value \<open>lhs.m_value * rhs.m_value\<close>.
\<close>

theorem operator_times_linear:
  assumes "has_linear_scale [lhs, rhs]"
    and "unit_ok (unit_type lhs)" and "unit_ok (unit_type rhs)"
  shows "(\<not> is_convertible_unit_t lhs rhs \<longrightarrow>
            operator_times lhs rhs =
              Inr \<lparr>unit_type = unit_multiply (unit_type lhs) (unit_type rhs),
                   non_linear_scale_type = linear_scale,
                   m_value = m_value lhs * m_value rhs\<rparr>
            \<and> dimension (unit_multiply (unit_type lhs) (unit_type rhs)) =
                map2 (+) (dimension (unit_type lhs)) (dimension (unit_type rhs)))
       \<and> (is_convertible_unit_t lhs rhs \<longrightarrow>
            operator_times lhs rhs =
              (case convert (unit_type rhs) (unit_type lhs) (m_value rhs) of
                 Inl e \<Rightarrow> Inl e
               | Inr v \<Rightarrow>
                   Inr \<lparr>unit_type = squared (unit_type lhs),
                        non_linear_scale_type = linear_scale,
                        m_value = m_value lhs * v\<rparr>)
            \<and> dimension (squared (unit_type lhs)) =
                map2 (+) (dimension (unit_type lhs)) (dimension (unit_type rhs)))
       \<and> (unit_type lhs = unit_type rhs \<longrightarrow>
            operator_times lhs rhs =
              Inr \<lparr>unit_type = squared (unit_type lhs),
                   non_linear_scale_type = linear_scale,
                   m_value = m_value lhs * m_value rhs\<rparr>)"
proof (intro conjI impI)
  assume "\<not> is_convertible_unit_t lhs rhs"
  then show "operator_times lhs rhs =
      Inr \<lparr>unit_type = unit_multiply (unit_type lhs) (unit_type rhs),
           non_linear_scale_type = linear_scale, m_value = m_value lhs * m_value rhs\<rparr>"
    using assms(1) by (simp add: operator_times_def unit_t_ctor_def)
next
  assume "\<not> is_convertible_unit_t lhs rhs"
  show "dimension (unit_multiply (unit_type lhs) (unit_type rhs)) =
      map2 (+) (dimension (unit_type lhs)) (dimension (unit_type rhs))"
    using assms(2,3) by (rule dimension_unit_multiply)
next
  assume "is_convertible_unit_t lhs rhs"
  then show "operator_times lhs rhs =
      (case convert (unit_type rhs) (unit_type lhs) (m_value rhs) of
         Inl e \<Rightarrow> Inl e
       | Inr v \<Rightarrow>
           Inr \<lparr>unit_type = squared (unit_type lhs), non_linear_scale_type = linear_scale,
                m_value = m_value lhs * v\<rparr>)"
    using assms(1) by (simp add: operator_times_def unit_t_ctor_def split: sum.splits)
next
  assume "is_convertible_unit_t lhs rhs"
  then have "dimension (unit_type lhs) = dimension (unit_type rhs)"
    by (simp add: is_convertible_unit_t_def dimension_convertible)
  then show "dimension (squared (unit_type lhs)) =
      map2 (+) (dimension (unit_type lhs)) (dimension (unit_type rhs))"
    using assms(2) by (simp add: dimension_squared map2_add_self)
next
  assume "unit_type lhs = unit_type rhs"
  then show "operator_times lhs rhs =
      Inr \<lparr>unit_type = squared (unit_type lhs), non_linear_scale_type = linear_scale,
           m_value = m_value lhs * m_value rhs\<rparr>"
    using assms(1)
    by (simp add: operator_times_def unit_t_ctor_def is_convertible_unit_t_def
        is_convertible_unit_def convert_same)
qed

theorem operator_times_linear_witness:
  "has_linear_scale [meter_t 2, second_t 3] \<and> has_linear_scale [meter_t 2, kilometer_t 3]
   \<and> has_linear_scale [meter_t 2, meter_t 3]
   \<and> unit_ok meters \<and> unit_ok seconds \<and> unit_ok kilometers
   \<and> \<not> is_convertible_unit_t (meter_t 2) (second_t 3)
   \<and> operator_times (meter_t 2) (second_t 3) =
       Inr \<lparr>unit_type = unit_multiply meters seconds, non_linear_scale_type = linear_scale,
            m_value = 6\<rparr>
   \<and> dimension (unit_multiply meters seconds) = [1, 0, 1, 0, 0, 0, 0, 0]
   \<and> is_convertible_unit_t (meter_t 2) (kilometer_t 3)
   \<and> operator_times (meter_t 2) (kilometer_t 3) =
       Inr \<lparr>unit_type = squared meters, non_linear_scale_type = linear_scale, m_value = 6000\<rparr>
   \<and> dimension (squared meters) = [2, 0, 0, 0, 0, 0, 0, 0]
   \<and> operator_times (meter_t 2) (meter_t 3) =
       Inr \<lparr>unit_type = squared meters, non_linear_scale_type = linear_scale, m_value = 6\<rparr>"
proof -
  have u: "unit_type (meter_t 2) = meters" "unit_type (second_t 3) = seconds"
    "unit_type (kilometer_t 3) = kilometers" "unit_type (meter_t 3) = meters"
    "m_value (meter_t 2) = 2" "m_value (second_t 3) = 3" "m_value (kilometer_t 3) = 3"
    "m_value (meter_t 3) = 3"
    by (simp_all add: meter_t_def second_t_def kilometer_t_def unit_t_ctor_def)
  have l: "has_linear_scale [meter_t 2, second_t 3]" "has_linear_scale [meter_t 2, kilometer_t 3]"
    "has_linear_scale [meter_t 2, meter_t 3]"
    by (simp_all add: has_linear_scale_def meter_t_def second_t_def kilometer_t_def unit_t_ctor_def)
  have ok: "unit_ok meters" "unit_ok seconds" "unit_ok kilometers" by code_simp+
  have n: "\<not> is_convertible_unit_t (meter_t 2) (second_t 3)"
  proof -
    have "\<not> is_convertible_unit meters seconds" by code_simp
    then show ?thesis by (simp add: is_convertible_unit_t_def u)
  qed
  have c: "is_convertible_unit_t (meter_t 2) (kilometer_t 3)"
  proof -
    have "is_convertible_unit meters kilometers" by code_simp
    then show ?thesis by (simp add: is_convertible_unit_t_def u)
  qed
  have cv: "convert kilometers meters 3 = Inr 3000" by code_simp
  have d: "dimension meters = [1, 0, 0, 0, 0, 0, 0, 0]" "dimension seconds = [0, 0, 1, 0, 0, 0, 0, 0]"
    "dimension kilometers = [1, 0, 0, 0, 0, 0, 0, 0]"
    by code_simp+
  have a: "operator_times (meter_t 2) (second_t 3) =
       Inr \<lparr>unit_type = unit_multiply meters seconds, non_linear_scale_type = linear_scale,
            m_value = 6\<rparr>
     \<and> dimension (unit_multiply meters seconds) = [1, 0, 1, 0, 0, 0, 0, 0]"
    using operator_times_linear[OF l(1)] n ok by (simp add: u d)
  have b: "operator_times (meter_t 2) (kilometer_t 3) =
       Inr \<lparr>unit_type = squared meters, non_linear_scale_type = linear_scale, m_value = 6000\<rparr>
     \<and> dimension (squared meters) = [2, 0, 0, 0, 0, 0, 0, 0]"
    using operator_times_linear[OF l(2)] c ok by (simp add: u d cv)
  have e: "operator_times (meter_t 2) (meter_t 3) =
       Inr \<lparr>unit_type = squared meters, non_linear_scale_type = linear_scale, m_value = 6\<rparr>"
    using operator_times_linear[OF l(3)] ok by (simp add: u)
  from l ok n c a b e show ?thesis by blast
qed

end
